theory Spec2Isabelle
  imports Complex_Main "HOL-Library.Sublist"
begin

section \<open>The safety filter node of crazyflie\_refinecbf\<close>

text \<open>
  A shallow embedding of \<^verbatim>\<open>safety_filter.py\<close> and of the constants of
  \<^verbatim>\<open>config.py\<close> it reads. The node object is a record that every callback takes and
  returns; a raised Python exception is a value; everything the node sends out, and every
  call of the corrector, is appended to a trace, so that order can be stated.

  Python floats are modelled by \<^typ>\<open>real\<close>: the node only moves numbers from one place to
  another and compares nothing but \<^verbatim>\<open>None\<close>-ness, so rounding plays no part.

  Three collaborators are libraries outside the package and enter as parameters:
  the grid interpolation (\<^verbatim>\<open>hj.Grid.interpolate\<close>), the corrector
  (\<^verbatim>\<open>ControlAffineASIF.__call__\<close>) and the loading of an array file
  (\<^verbatim>\<open>jnp.load\<close>). The interpolation and the loading may raise (the first does
  so on a table whose shape does not fit the grid); the corrector hands back a Python
  value, and an exception raised inside it is outside the model.
  Console output (\<^verbatim>\<open>print\<close>, \<^verbatim>\<open>rospy.loginfo\<close>) is not recorded.

  The callbacks and the handlers of \<^verbatim>\<open>main\<close> are functions of an arbitrary node object.
  The class has no base class, so the names \<^verbatim>\<open>create_publisher\<close>,
  \<^verbatim>\<open>create_timer\<close> and \<^verbatim>\<open>destroy_node\<close> it calls on itself are not bound: the
  constructor and the \<^verbatim>\<open>finally\<close> block raise \<^verbatim>\<open>AttributeError\<close> where they
  reach them, and the model says so.
\<close>

subsection \<open>Python values\<close>

datatype pyexc =
  TypeError | IndexError | AttributeError | ValueError | NameError
  | FileNotFoundError | KeyboardInterrupt | RuntimeError

text \<open>An element of an array: a float, or \<^verbatim>\<open>None\<close> in an array of dtype object.\<close>

datatype pyval = PyNone | PyFloat real

text \<open>A value-function table: an array with its shape.\<close>

datatype ndarray = NDArray (shape: "nat list") (cells: "real list")

text \<open>
  What the corrector hands back: \<^verbatim>\<open>None\<close>, a one-dimensional array or a
  two-dimensional array (a list of rows).
\<close>

datatype control_value = NoneValue | Array1 "pyval list" | Array2 "pyval list list"

record twist =
  linear_x :: real
  linear_y :: real
  linear_z :: real
  angular_x :: real
  angular_y :: real
  angular_z :: real

text \<open>The keyword arguments of \<^verbatim>\<open>data_logger.append\<close>, one record per cycle.\<close>

record telemetry =
  rec_x :: real
  rec_y :: real
  rec_theta :: real
  rec_safety_value :: real
  rec_v :: pyval
  rec_omega :: pyval
  rec_v_nom :: real
  rec_omega_nom :: real

text \<open>The five \<^verbatim>\<open>logging.debug\<close> lines written to \<^verbatim>\<open>qp_failure.log\<close>.\<close>

datatype log_record =
  LogTimeOfOccurrence real
  | LogSolverFailed
  | LogState "real list"
  | LogSafetyValue real
  | LogNominalPolicy "real list"

datatype event =
  SafetyValuePublish real
  | AsifInvoke "real list" "real list list"
  | QpFailureLog log_record
  | CmdVelPublish twist
  | LoggerAppend telemetry
  | SaveData string "telemetry list"

subsection \<open>Configuration and collaborators\<close>

text \<open>
  The constants of \<^verbatim>\<open>config.py\<close> that the node reads. \<^verbatim>\<open>DATA_FILENAME\<close> is an
  option: its only assignment in \<^verbatim>\<open>config.py\<close> (line 30) is commented out, so the name is
  bound only if a starred import supplies it, and reading an unbound name raises
  \<^verbatim>\<open>NameError\<close>. \<^verbatim>\<open>control_dims\<close> is \<^verbatim>\<open>DYNAMICS.control_dims\<close> and
  \<^verbatim>\<open>INITIAL_CBF\<close> is the table computed by the library at import time.
\<close>

record config =
  USE_REFINECBF :: bool
  GRID_RESOLUTION :: "nat list"
  INITIAL_STATE :: "real list"
  U_MIN :: "real list"
  INITIAL_CBF :: ndarray
  PRECOMPUTED_CBF_FILENAME :: string
  DATA_FILENAME :: "string option"
  control_dims :: nat

record extern =
  interpolate :: "ndarray \<Rightarrow> real list \<Rightarrow> pyexc + real"
  asif :: "ndarray \<Rightarrow> real list \<Rightarrow> real \<Rightarrow> real list list \<Rightarrow> control_value"
  load :: "string \<Rightarrow> ndarray option"
  create_shutdown_message :: twist

text \<open>The values \<^verbatim>\<open>config.py\<close> assigns, with the three it does not fix as arguments.\<close>

definition config_py :: "ndarray \<Rightarrow> nat \<Rightarrow> string option \<Rightarrow> config" where
  "config_py initial_cbf dims data_filename =
     \<lparr> USE_REFINECBF = True,
       GRID_RESOLUTION = [61, 61, 61],
       INITIAL_STATE = [1 / 2, 1, 0],
       U_MIN = [0, 0],
       INITIAL_CBF = initial_cbf,
       PRECOMPUTED_CBF_FILENAME = ''./precomputed_cbf.npy'',
       DATA_FILENAME = data_filename,
       control_dims = dims \<rparr>"

subsection \<open>The node object\<close>

text \<open>
  \<^verbatim>\<open>self.tabular_cbf\<close> and \<^verbatim>\<open>self.diffdrive_asif.cbf\<close> refer to one and the same
  object: it is created once in the constructor and line 161 assigns the same reference
  again. Its attribute \<^verbatim>\<open>vf_table\<close> is therefore a single field here, read both by the
  safety-value lookup and by the corrector. \<^verbatim>\<open>safety_value\<close> does not exist as an
  attribute before the first cycle.
\<close>

record safety_filter =
  cbf :: "ndarray option"
  vf_table :: ndarray
  state :: "real list"
  nominal_policy :: "real list"
  safety_value :: "real option"
  data_logger :: "telemetry list"
  trace :: "event list"

definition emit :: "event \<Rightarrow> safety_filter \<Rightarrow> safety_filter" where
  "emit e sf = sf\<lparr>trace := trace sf @ [e]\<rparr>"

text \<open>The events a step added to the trace.\<close>

definition emitted :: "safety_filter \<Rightarrow> safety_filter \<Rightarrow> event list" where
  "emitted sf sf' = drop (length (trace sf)) (trace sf')"

subsection \<open>Python operations used by the node\<close>

definition bindE :: "pyexc + 'a \<Rightarrow> ('a \<Rightarrow> pyexc + 'b) \<Rightarrow> pyexc + 'b" where
  "bindE m f = (case m of Inl e \<Rightarrow> Inl e | Inr a \<Rightarrow> f a)"

definition py_index :: "'a list \<Rightarrow> nat \<Rightarrow> pyexc + 'a" where
  "py_index a i = (if i < length a then Inr (a ! i) else Inl IndexError)"

text \<open>\<^verbatim>\<open>np.reshape(a, (1, n))\<close> of a one-dimensional array.\<close>

definition np_reshape :: "real list \<Rightarrow> nat \<Rightarrow> pyexc + real list list" where
  "np_reshape a n = (if length a = n then Inr [a] else Inl ValueError)"

text \<open>\<^verbatim>\<open>jnp.load(path)\<close>, then \<^verbatim>\<open>np.array\<close> of it (a copy).\<close>

definition jnp_load :: "extern \<Rightarrow> string \<Rightarrow> pyexc + ndarray" where
  "jnp_load ext path = (case load ext path of None \<Rightarrow> Inl FileNotFoundError | Some a \<Rightarrow> Inr a)"

fun truthy :: "pyval \<Rightarrow> bool" where
  "truthy PyNone = False"
| "truthy (PyFloat r) = (r \<noteq> 0)"

definition py_or :: "pyval \<Rightarrow> pyval \<Rightarrow> pyval" where
  "py_or a b = (if truthy a then a else b)"

text \<open>
  \<^verbatim>\<open>row.any() is None\<close> for a one-dimensional array \<^verbatim>\<open>row\<close>. On a float array
  \<^verbatim>\<open>any\<close> gives a NumPy boolean, which is never \<^verbatim>\<open>None\<close>. On an object array NumPy
  before 2.0 folds Python's \<^verbatim>\<open>or\<close> over the elements and returns the element it ends
  on, which is \<^verbatim>\<open>None\<close> exactly when no element is truthy and the last one is
  \<^verbatim>\<open>None\<close>; this is the only reading under which the test of line 118 can succeed
  (from NumPy 2.0 on \<^verbatim>\<open>any\<close> always gives a boolean).
\<close>

fun any_is_None :: "pyval list \<Rightarrow> bool" where
  "any_is_None [] = False"
| "any_is_None (a # as) = (foldl py_or a as = PyNone)"

text \<open>\<^verbatim>\<open>control_input[0].any() is None\<close> (line 118).\<close>

fun row0_any_is_None :: "control_value \<Rightarrow> pyexc + bool" where
  "row0_any_is_None NoneValue = Inl TypeError"
| "row0_any_is_None (Array1 []) = Inl IndexError"
| "row0_any_is_None (Array1 (PyNone # as)) = Inl AttributeError"
| "row0_any_is_None (Array1 (PyFloat r # as)) = Inr False"
| "row0_any_is_None (Array2 []) = Inl IndexError"
| "row0_any_is_None (Array2 (row # rows)) = Inr (any_is_None row)"

text \<open>\<^verbatim>\<open>control_input[0, j]\<close>.\<close>

fun index0 :: "control_value \<Rightarrow> nat \<Rightarrow> pyexc + pyval" where
  "index0 NoneValue j = Inl TypeError"
| "index0 (Array1 as) j = Inl IndexError"
| "index0 (Array2 []) j = Inl IndexError"
| "index0 (Array2 (row # rows)) j = py_index row j"

fun py_float :: "pyval \<Rightarrow> pyexc + real" where
  "py_float PyNone = Inl TypeError"
| "py_float (PyFloat r) = Inr r"

subsection \<open>The constructor (lines 21 to 91)\<close>

text \<open>Lines 41 to 47: the value of \<^verbatim>\<open>self.cbf\<close>, if assigned, and the first table.\<close>

definition initial_vf_table :: "extern \<Rightarrow> config \<Rightarrow> pyexc + (ndarray option \<times> ndarray)" where
  "initial_vf_table ext cfg =
     (if USE_REFINECBF cfg then Inr (None, INITIAL_CBF cfg)
      else bindE (jnp_load ext (PRECOMPUTED_CBF_FILENAME cfg)) (\<lambda>a. Inr (Some a, a)))"

text \<open>Line 54: the first nominal policy.\<close>

definition initial_nominal_policy :: "config \<Rightarrow> pyexc + real list" where
  "initial_nominal_policy cfg = bindE (py_index (U_MIN cfg) 0) (\<lambda>u0. Inr [u0, 0])"

text \<open>The attributes as they stand when line 54 has run.\<close>

definition SafetyFilter_attributes :: "extern \<Rightarrow> config \<Rightarrow> pyexc + safety_filter" where
  "SafetyFilter_attributes ext cfg =
     bindE (initial_vf_table ext cfg)
       (\<lambda>(c, table).
          bindE (initial_nominal_policy cfg)
            (\<lambda>nominal. Inr \<lparr> cbf = c,
                            vf_table = table,
                            state = INITIAL_STATE cfg,
                            nominal_policy = nominal,
                            safety_value = None,
                            data_logger = [],
                            trace = [] \<rparr>))"

text \<open>
  Line 60 then evaluates \<^verbatim>\<open>self.create_publisher\<close>, which the class does not have:
  the constructor never returns a node.
\<close>

definition SafetyFilter_init :: "extern \<Rightarrow> config \<Rightarrow> pyexc + safety_filter" where
  "SafetyFilter_init ext cfg =
     bindE (SafetyFilter_attributes ext cfg) (\<lambda>sf. Inl AttributeError)"

subsection \<open>The timer callback (lines 93 to 152)\<close>

definition publish_safety_value :: "extern \<Rightarrow> safety_filter \<Rightarrow> pyexc + safety_filter" where
  "publish_safety_value ext sf =
     bindE (interpolate ext (vf_table sf) (state sf))
       (\<lambda>val. Inr (emit (SafetyValuePublish val) (sf\<lparr>safety_value := Some val\<rparr>)))"

text \<open>
  Lines 118 to 126. The clock reading of line 121 is the argument \<open>now\<close>. The result is
  the value of \<^verbatim>\<open>control_input\<close> after the block, or the exception raised in it, with
  the node as it is at that point.
\<close>

definition qp_failure_check ::
  "config \<Rightarrow> real \<Rightarrow> control_value \<Rightarrow> safety_filter \<Rightarrow> (pyexc + control_value) \<times> safety_filter" where
  "qp_failure_check cfg now control_input sf =
     (case row0_any_is_None control_input of
        Inl e \<Rightarrow> (Inl e, sf)
      | Inr False \<Rightarrow> (Inr control_input, sf)
      | Inr True \<Rightarrow>
          (let sf1 = emit (QpFailureLog (LogState (state sf)))
                       (emit (QpFailureLog LogSolverFailed)
                          (emit (QpFailureLog (LogTimeOfOccurrence now)) sf))
           in case safety_value sf1 of
                None \<Rightarrow> (Inl AttributeError, sf1)
              | Some val \<Rightarrow>
                  (let sf2 = emit (QpFailureLog (LogNominalPolicy (nominal_policy sf1)))
                               (emit (QpFailureLog (LogSafetyValue val)) sf1)
                   in case py_index (U_MIN cfg) 0 of
                        Inl e \<Rightarrow> (Inl e, sf2)
                      | Inr u0 \<Rightarrow> (Inr (Array2 [[PyFloat u0, PyFloat 0]]), sf2))))"

text \<open>Lines 129 to 135.\<close>

definition make_twist :: "control_value \<Rightarrow> pyexc + twist" where
  "make_twist control_input =
     bindE (bindE (index0 control_input 0) py_float)
       (\<lambda>lin. bindE (bindE (index0 control_input 1) py_float)
          (\<lambda>ang. Inr \<lparr> linear_x = lin, linear_y = 0, linear_z = 0,
                       angular_x = 0, angular_y = 0, angular_z = ang \<rparr>))"

text \<open>The arguments of \<^verbatim>\<open>data_logger.append\<close> (lines 143 to 152), evaluated in order.\<close>

definition telemetry_record :: "safety_filter \<Rightarrow> control_value \<Rightarrow> pyexc + telemetry" where
  "telemetry_record sf control_input =
     bindE (py_index (state sf) 0) (\<lambda>px.
     bindE (py_index (state sf) 1) (\<lambda>py.
     bindE (py_index (state sf) 2) (\<lambda>pt.
     bindE (case safety_value sf of None \<Rightarrow> Inl AttributeError | Some val \<Rightarrow> Inr val) (\<lambda>sv.
     bindE (index0 control_input 0) (\<lambda>cv.
     bindE (index0 control_input 1) (\<lambda>cw.
     bindE (py_index (nominal_policy sf) 0) (\<lambda>nv.
     bindE (py_index (nominal_policy sf) 1) (\<lambda>nw.
       Inr \<lparr> rec_x = px, rec_y = py, rec_theta = pt, rec_safety_value = sv,
             rec_v = cv, rec_omega = cw, rec_v_nom = nv, rec_omega_nom = nw \<rparr>))))))))"

definition timer_callback ::
  "extern \<Rightarrow> config \<Rightarrow> real \<Rightarrow> safety_filter \<Rightarrow> pyexc option \<times> safety_filter" where
  "timer_callback ext cfg now sf0 =
     (case publish_safety_value ext sf0 of
        Inl e \<Rightarrow> (Some e, sf0)
      | Inr sf1 \<Rightarrow>
     (case np_reshape (nominal_policy sf1) (control_dims cfg) of
        Inl e \<Rightarrow> (Some e, sf1)
      | Inr nominal \<Rightarrow>
          (let sf2 = emit (AsifInvoke (state sf1) nominal) sf1;
               control_input0 = asif ext (vf_table sf1) (state sf1) 0 nominal
           in case qp_failure_check cfg now control_input0 sf2 of
                (Inl e, sf3) \<Rightarrow> (Some e, sf3)
              | (Inr control_input, sf3) \<Rightarrow>
                  (case make_twist control_input of
                     Inl e \<Rightarrow> (Some e, sf3)
                   | Inr msg \<Rightarrow>
                       (let sf4 = emit (CmdVelPublish msg) sf3
                        in case telemetry_record sf4 control_input of
                             Inl e \<Rightarrow> (Some e, sf4)
                           | Inr r \<Rightarrow>
                               (None, emit (LoggerAppend r)
                                        (sf4\<lparr>data_logger := data_logger sf4 @ [r]\<rparr>)))))))"

subsection \<open>The subscriber callbacks (lines 154 to 173)\<close>

definition cbf_sub_callback ::
  "extern \<Rightarrow> config \<Rightarrow> bool \<Rightarrow> safety_filter \<Rightarrow> pyexc option \<times> safety_filter" where
  "cbf_sub_callback ext cfg msg_data sf =
     (if USE_REFINECBF cfg then
        (if msg_data then
           (case jnp_load ext ''./log/cbf.npy'' of
              Inl e \<Rightarrow> (Some e, sf)
            | Inr a \<Rightarrow> (None, sf\<lparr>cbf := Some a, vf_table := a\<rparr>))
         else (None, sf))
      else (None, sf))"

definition nom_policy_sub_callback :: "twist \<Rightarrow> safety_filter \<Rightarrow> safety_filter" where
  "nom_policy_sub_callback msg sf = sf\<lparr>nominal_policy := [linear_x msg, angular_z msg]\<rparr>"

subsection \<open>Running the node (lines 175 to 201)\<close>

text \<open>
  One delivery to the node: the timer firing (with the clock reading used by that cycle), a
  message on \<^verbatim>\<open>cbf_availability\<close>, or a message on \<^verbatim>\<open>nom_policy\<close>.
\<close>

datatype delivery = TimerFire real | CbfAvailability bool | NomPolicy twist

fun deliver ::
  "extern \<Rightarrow> config \<Rightarrow> delivery \<Rightarrow> safety_filter \<Rightarrow> pyexc option \<times> safety_filter" where
  "deliver ext cfg (TimerFire now) sf = timer_callback ext cfg now sf"
| "deliver ext cfg (CbfAvailability b) sf = cbf_sub_callback ext cfg b sf"
| "deliver ext cfg (NomPolicy msg) sf = (None, nom_policy_sub_callback msg sf)"

text \<open>
  Callbacks run one at a time, in the order of the deliveries; an exception leaving a
  callback ends the run and is handed to the caller, as for any Python call.
\<close>

fun run_callbacks ::
  "extern \<Rightarrow> config \<Rightarrow> delivery list \<Rightarrow> safety_filter \<Rightarrow> pyexc option \<times> safety_filter" where
  "run_callbacks ext cfg [] sf = (None, sf)"
| "run_callbacks ext cfg (d # ds) sf =
     (case deliver ext cfg d sf of
        (Some e, sf') \<Rightarrow> (Some e, sf')
      | (None, sf') \<Rightarrow> run_callbacks ext cfg ds sf')"

text \<open>How \<^verbatim>\<open>rospy.spin()\<close> comes to an end: it returns, or an exception leaves it.\<close>

datatype spin_outcome = SpinReturns | SpinRaises pyexc

definition spin ::
  "extern \<Rightarrow> config \<Rightarrow> delivery list \<Rightarrow> spin_outcome \<Rightarrow> safety_filter
     \<Rightarrow> spin_outcome \<times> safety_filter" where
  "spin ext cfg ds ending sf =
     (case run_callbacks ext cfg ds sf of
        (Some e, sf') \<Rightarrow> (SpinRaises e, sf')
      | (None, sf') \<Rightarrow> (ending, sf'))"

definition publish_shutdown :: "extern \<Rightarrow> safety_filter \<Rightarrow> safety_filter" where
  "publish_shutdown ext sf = emit (CmdVelPublish (create_shutdown_message ext)) sf"

text \<open>
  The \<^verbatim>\<open>except KeyboardInterrupt\<close> block (lines 183 to 191), entered when that is
  what left \<^verbatim>\<open>spin\<close>: the exception it raises itself, if any, and the node after it.
\<close>

definition except_block :: "extern \<Rightarrow> config \<Rightarrow> safety_filter \<Rightarrow> pyexc option \<times> safety_filter" where
  "except_block ext cfg sf =
     (let sfa = publish_shutdown ext sf
      in case DATA_FILENAME cfg of
           None \<Rightarrow> (Some NameError, sfa)
         | Some fname \<Rightarrow> (None, emit (SaveData fname (data_logger sfa)) sfa))"

text \<open>
  The handlers of \<^verbatim>\<open>main\<close> (lines 183 to 201), entered with the way \<^verbatim>\<open>spin\<close>
  ended. The \<^verbatim>\<open>finally\<close> block publishes the shutdown message and then calls
  \<^verbatim>\<open>safety_filter.destroy_node()\<close>; the class has no such method, so on every path
  line 201 raises \<^verbatim>\<open>AttributeError\<close>, which replaces an exception still pending
  and is what leaves \<^verbatim>\<open>main\<close>.
\<close>

definition main_handlers ::
  "extern \<Rightarrow> config \<Rightarrow> spin_outcome \<Rightarrow> safety_filter \<Rightarrow> pyexc option \<times> safety_filter" where
  "main_handlers ext cfg outcome sf =
     (let (pending, sf1) =
            (case outcome of
               SpinReturns \<Rightarrow> (None, sf)
             | SpinRaises e \<Rightarrow>
                 if e = KeyboardInterrupt then except_block ext cfg sf else (Some e, sf))
      in (Some AttributeError, publish_shutdown ext sf1))"

text \<open>
  \<^verbatim>\<open>main\<close>: the constructor runs outside the \<^verbatim>\<open>try\<close>, so an exception in it leaves
  \<^verbatim>\<open>main\<close> at once, with no node and none of the handlers run.
\<close>

definition main ::
  "extern \<Rightarrow> config \<Rightarrow> delivery list \<Rightarrow> spin_outcome \<Rightarrow> pyexc option \<times> safety_filter option" where
  "main ext cfg ds ending =
     (case SafetyFilter_init ext cfg of
        Inl e \<Rightarrow> (Some e, None)
      | Inr sf0 \<Rightarrow>
          (case spin ext cfg ds ending sf0 of
             (outcome, sf) \<Rightarrow>
               (case main_handlers ext cfg outcome sf of
                  (pending, sf') \<Rightarrow> (pending, Some sf'))))"

subsection \<open>The nominal policy a cycle is expected to filter\<close>

text \<open>
  Written from the specification's words, to be compared with the node: the policy in force
  after a sequence of deliveries is the pair of \<^verbatim>\<open>linear.x\<close> and \<^verbatim>\<open>angular.z\<close>
  of the most recent \<^verbatim>\<open>nom_policy\<close> message, or the starting value \<open>d\<close> when there
  has been none.
\<close>

fun latest_nominal :: "real list \<Rightarrow> delivery list \<Rightarrow> real list" where
  "latest_nominal d [] = d"
| "latest_nominal d (NomPolicy msg # ds) = latest_nominal [linear_x msg, angular_z msg] ds"
| "latest_nominal d (TimerFire now # ds) = latest_nominal d ds"
| "latest_nominal d (CbfAvailability b # ds) = latest_nominal d ds"

subsection \<open>Concrete inputs\<close>

text \<open>
  A small instance on which the callbacks can be run: the shipped constants on a grid of
  \<open>2 \<times> 2 \<times> 2\<close> nodes, a file system holding one refined table whose shape does not fit
  that grid, stand-ins for the interpolation (the first cell of a table of the grid's shape,
  \<^verbatim>\<open>IndexError\<close> on any other table) and for the corrector (a fixed answer \<open>out\<close>),
  and the all-zero shutdown message.
\<close>

definition zero_twist :: twist where
  "zero_twist = \<lparr> linear_x = 0, linear_y = 0, linear_z = 0,
                   angular_x = 0, angular_y = 0, angular_z = 0 \<rparr>"

definition demo_table :: ndarray where
  "demo_table = NDArray [2, 2, 2] [1, 1, 1, 1, 1, 1, 1, 1]"

definition misshapen_table :: ndarray where
  "misshapen_table = NDArray [3] [7, 8, 9]"

definition demo_config :: config where
  "demo_config =
     (config_py demo_table 2 (Some ''./experiment_dataset.txt''))\<lparr>GRID_RESOLUTION := [2, 2, 2]\<rparr>"

definition demo_extern :: "control_value \<Rightarrow> extern" where
  "demo_extern out =
     \<lparr> interpolate = (\<lambda>table st. if shape table = [2, 2, 2] then Inr (hd (cells table))
                                  else Inl IndexError),
       asif = (\<lambda>table st tm nominal. out),
       load = (\<lambda>path. if path = ''./log/cbf.npy'' then Some misshapen_table else None),
       create_shutdown_message = zero_twist \<rparr>"

text \<open>A node object holding the attributes that lines 41 to 54 assign under \<open>demo_config\<close>.\<close>

definition demo_filter :: safety_filter where
  "demo_filter =
     \<lparr> cbf = None, vf_table = demo_table, state = [1 / 2, 1, 0], nominal_policy = [0, 0],
       safety_value = None, data_logger = [], trace = [] \<rparr>"

text \<open>A nominal-policy message with every component set.\<close>

definition demo_policy_msg :: twist where
  "demo_policy_msg = \<lparr> linear_x = 1 / 5, linear_y = 3, linear_z = 4,
                        angular_x = 5, angular_y = 6, angular_z = 1 / 10 \<rparr>"

text \<open>A corrector answer of the expected form: one row of two floats.\<close>

definition demo_control :: control_value where
  "demo_control = Array2 [[PyFloat (1 / 10), PyFloat (- (1 / 5))]]"

text \<open>A corrector answer without a solution: one row holding \<^verbatim>\<open>None\<close> twice.\<close>

definition no_solution :: control_value where
  "no_solution = Array2 [[PyNone, PyNone]]"

text \<open>The same configuration with refinement switched off.\<close>

definition precomputed_config :: config where
  "precomputed_config = demo_config\<lparr>USE_REFINECBF := False\<rparr>"

text \<open>The file system of \<open>demo_extern\<close> with a precomputed table of the grid's shape.\<close>

definition precomputed_extern :: "control_value \<Rightarrow> extern" where
  "precomputed_extern out =
     (demo_extern out)
       \<lparr>load := (\<lambda>path. if path = ''./precomputed_cbf.npy'' then Some demo_table else None)\<rparr>"

text \<open>The lines of \<^verbatim>\<open>qp_failure.log\<close> among a list of events.\<close>

fun failure_logs :: "event list \<Rightarrow> log_record list" where
  "failure_logs [] = []"
| "failure_logs (QpFailureLog l # es) = l # failure_logs es"
| "failure_logs (e # es) = failure_logs es"


section \<open>Basic facts\<close>

lemmas demo_defs = demo_extern_def demo_config_def config_py_def demo_filter_def demo_table_def
  misshapen_table_def zero_twist_def demo_policy_msg_def demo_control_def no_solution_def
  precomputed_config_def precomputed_extern_def

lemmas callback_defs = timer_callback_def publish_safety_value_def np_reshape_def
  qp_failure_check_def make_twist_def telemetry_record_def bindE_def py_index_def emit_def
  cbf_sub_callback_def nom_policy_sub_callback_def jnp_load_def py_or_def
  main_handlers_def except_block_def publish_shutdown_def emitted_def

lemma trace_emit [simp]: "trace (emit e sf) = trace sf @ [e]"
  by (simp add: emit_def)

lemma emit_fields [simp]:
  "vf_table (emit e sf) = vf_table sf"
  "cbf (emit e sf) = cbf sf"
  "state (emit e sf) = state sf"
  "nominal_policy (emit e sf) = nominal_policy sf"
  "safety_value (emit e sf) = safety_value sf"
  "data_logger (emit e sf) = data_logger sf"
  by (simp_all add: emit_def)

lemma publish_safety_value_Inl:
  "interpolate ext (vf_table sf) (state sf) = Inl e \<Longrightarrow> publish_safety_value ext sf = Inl e"
  by (simp add: publish_safety_value_def bindE_def)

lemma publish_safety_value_Inr:
  "interpolate ext (vf_table sf) (state sf) = Inr v \<Longrightarrow>
     publish_safety_value ext sf = Inr (emit (SafetyValuePublish v) (sf\<lparr>safety_value := Some v\<rparr>))"
  by (simp add: publish_safety_value_def bindE_def)

text \<open>The constructor raises on every input, and so does \<^verbatim>\<open>main\<close>, before its handlers.\<close>

lemma SafetyFilter_init_raises: "\<exists>e. SafetyFilter_init ext cfg = Inl e"
  by (cases "SafetyFilter_attributes ext cfg") (simp_all add: SafetyFilter_init_def bindE_def)

lemma main_raises: "\<exists>e. main ext cfg ds ending = (Some e, None)"
  using SafetyFilter_init_raises[of ext cfg] by (auto simp: main_def)

lemma attributes_fields:
  assumes "SafetyFilter_attributes ext cfg = Inr sf0"
  shows "nominal_policy sf0 = [U_MIN cfg ! 0, 0]"
    and "state sf0 = INITIAL_STATE cfg"
    and "USE_REFINECBF cfg \<Longrightarrow> vf_table sf0 = INITIAL_CBF cfg"
    and "\<not> USE_REFINECBF cfg \<Longrightarrow> load ext (PRECOMPUTED_CBF_FILENAME cfg) = Some (vf_table sf0)"
    and "trace sf0 = []" and "data_logger sf0 = []"
  using assms
  by (auto simp: SafetyFilter_attributes_def initial_vf_table_def initial_nominal_policy_def
                 bindE_def py_index_def jnp_load_def
           split: if_splits sum.splits option.splits)

lemma demo_attributes: "SafetyFilter_attributes (demo_extern out) demo_config = Inr demo_filter"
  by (simp add: demo_defs SafetyFilter_attributes_def initial_vf_table_def
        initial_nominal_policy_def bindE_def py_index_def)

lemma make_twist_Inr:
  "make_twist c = Inr m \<Longrightarrow>
     linear_y m = 0 \<and> linear_z m = 0 \<and> angular_x m = 0 \<and> angular_y m = 0 \<and>
     index0 c 0 = Inr (PyFloat (linear_x m)) \<and> index0 c 1 = Inr (PyFloat (angular_z m))"
  unfolding make_twist_def bindE_def
  by (auto split: sum.splits elim!: py_float.elims)

lemma make_twist_floats:
  "index0 c 0 = Inr (PyFloat a) \<Longrightarrow> index0 c 1 = Inr (PyFloat b) \<Longrightarrow>
     make_twist c = Inr \<lparr> linear_x = a, linear_y = 0, linear_z = 0,
                          angular_x = 0, angular_y = 0, angular_z = b \<rparr>"
  by (simp add: make_twist_def bindE_def)



subsection \<open>The pieces of a cycle\<close>

lemma telemetry_record_Inr:
  assumes "telemetry_record sf c = Inr r"
  shows "rec_x r = state sf ! 0 \<and> rec_y r = state sf ! 1 \<and> rec_theta r = state sf ! 2 \<and>
         safety_value sf = Some (rec_safety_value r) \<and>
         index0 c 0 = Inr (rec_v r) \<and> index0 c 1 = Inr (rec_omega r) \<and>
         rec_v_nom r = nominal_policy sf ! 0 \<and> rec_omega_nom r = nominal_policy sf ! 1"
  using assms unfolding telemetry_record_def bindE_def py_index_def
  by (auto split: sum.splits option.splits if_splits)

lemma telemetry_record_ok:
  assumes "3 \<le> length (state sf)" and "2 \<le> length (nominal_policy sf)"
    and "safety_value sf = Some v" and "index0 c 0 = Inr cv" and "index0 c 1 = Inr cw"
  shows "telemetry_record sf c =
           Inr \<lparr> rec_x = state sf ! 0, rec_y = state sf ! 1, rec_theta = state sf ! 2,
                 rec_safety_value = v, rec_v = cv, rec_omega = cw,
                 rec_v_nom = nominal_policy sf ! 0, rec_omega_nom = nominal_policy sf ! 1 \<rparr>"
proof -
  from assms(1,2) have "0 < length (state sf)" "1 < length (state sf)" "2 < length (state sf)"
    "0 < length (nominal_policy sf)" "1 < length (nominal_policy sf)"
    by auto
  with assms(3,4,5) show ?thesis
    by (simp add: telemetry_record_def bindE_def py_index_def)
qed

lemma qp_failure_check_frame:
  assumes "qp_failure_check cfg now c sf = (r, sf')"
  shows "\<exists>logs. trace sf' = trace sf @ map QpFailureLog logs"
    and "vf_table sf' = vf_table sf" and "cbf sf' = cbf sf" and "state sf' = state sf"
    and "nominal_policy sf' = nominal_policy sf" and "safety_value sf' = safety_value sf"
    and "data_logger sf' = data_logger sf"
proof -
  show "\<exists>logs. trace sf' = trace sf @ map QpFailureLog logs"
  proof (cases "row0_any_is_None c")
    case (Inl e)
    with assms have "sf' = sf" by (simp add: qp_failure_check_def)
    then have "trace sf' = trace sf @ map QpFailureLog []" by simp
    then show ?thesis by blast
  next
    case (Inr b)
    show ?thesis
    proof (cases b)
      case False
      with Inr assms have "sf' = sf" by (simp add: qp_failure_check_def)
      then have "trace sf' = trace sf @ map QpFailureLog []" by simp
      then show ?thesis by blast
    next
      case True
      show ?thesis
      proof (cases "safety_value sf")
        case None
        with True Inr assms
        have "trace sf' = trace sf @ map QpFailureLog
                [LogTimeOfOccurrence now, LogSolverFailed, LogState (state sf)]"
          by (auto simp: qp_failure_check_def Let_def)
        then show ?thesis by blast
      next
        case (Some val)
        with True Inr assms
        have "trace sf' = trace sf @ map QpFailureLog
                [LogTimeOfOccurrence now, LogSolverFailed, LogState (state sf),
                 LogSafetyValue val, LogNominalPolicy (nominal_policy sf)]"
          by (auto simp: qp_failure_check_def Let_def split: sum.splits)
        then show ?thesis by blast
      qed
    qed
  qed
  show "vf_table sf' = vf_table sf" and "cbf sf' = cbf sf" and "state sf' = state sf"
    and "nominal_policy sf' = nominal_policy sf" and "safety_value sf' = safety_value sf"
    and "data_logger sf' = data_logger sf"
    using assms
    by (auto simp: qp_failure_check_def Let_def split: sum.splits bool.splits option.splits)
qed

lemma qp_failure_check_Inr:
  assumes "qp_failure_check cfg now c sf = (Inr ctrl, sf')"
  shows "(row0_any_is_None c = Inr False \<and> ctrl = c \<and> sf' = sf) \<or>
         (row0_any_is_None c = Inr True \<and>
          (\<exists>u0. py_index (U_MIN cfg) 0 = Inr u0 \<and> ctrl = Array2 [[PyFloat u0, PyFloat 0]]) \<and>
          (\<exists>val. safety_value sf = Some val \<and>
             trace sf' = trace sf @ map QpFailureLog
               [LogTimeOfOccurrence now, LogSolverFailed, LogState (state sf),
                LogSafetyValue val, LogNominalPolicy (nominal_policy sf)]))"
  using assms
  by (auto simp: qp_failure_check_def Let_def split: sum.splits bool.splits option.splits)

lemma qp_failure_check_passes:
  "row0_any_is_None c = Inr False \<Longrightarrow> qp_failure_check cfg now c sf = (Inr c, sf)"
  by (simp add: qp_failure_check_def)


lemma detected_failure_is_logged:
  assumes "qp_failure_check cfg now c sf = (Inr ctrl, sf')" and "row0_any_is_None c = Inr True"
  shows "\<exists>val. safety_value sf = Some val \<and>
           failure_logs (emitted sf sf') =
             [LogTimeOfOccurrence now, LogSolverFailed, LogState (state sf),
              LogSafetyValue val, LogNominalPolicy (nominal_policy sf)]
         \<and> ctrl = Array2 [[PyFloat (U_MIN cfg ! 0), PyFloat 0]]"
  using qp_failure_check_Inr[OF assms(1)] assms(2)
  by (auto simp: emitted_def py_index_def split: if_splits)

subsection \<open>The shape of a cycle\<close>

text \<open>
  A cycle whose interpolation raises emits nothing. Otherwise there are five ways it can
  end, with what it added to the trace in each: the reshape raises; the block of lines 118
  to 126 raises; building the message raises; collecting the telemetry arguments raises; or
  the cycle runs to its end.
\<close>

lemma timer_callback_interpolate_raises:
  "interpolate ext (vf_table sf) (state sf) = Inl e \<Longrightarrow>
     timer_callback ext cfg now sf = (Some e, sf)"
  by (simp add: timer_callback_def publish_safety_value_Inl)

lemma timer_callback_shape:
  assumes run: "timer_callback ext cfg now sf = (exc, sf')"
    and interp: "interpolate ext (vf_table sf) (state sf) = Inr v"
  defines "sv \<equiv> SafetyValuePublish v"
    and "ai \<equiv> AsifInvoke (state sf) [nominal_policy sf]"
    and "sf2 \<equiv> emit (AsifInvoke (state sf) [nominal_policy sf])
                 (emit (SafetyValuePublish v) (sf\<lparr>safety_value := Some v\<rparr>))"
    and "out \<equiv> asif ext (vf_table sf) (state sf) 0 [nominal_policy sf]"
  shows "(exc \<noteq> None \<and> data_logger sf' = data_logger sf \<and>
            np_reshape (nominal_policy sf) (control_dims cfg) = Inl (the exc) \<and>
            trace sf' = trace sf @ [sv]) \<or>
         (\<exists>logs. exc \<noteq> None \<and> data_logger sf' = data_logger sf \<and>
            fst (qp_failure_check cfg now out sf2) = Inl (the exc) \<and>
            trace sf' = trace sf @ [sv, ai] @ map QpFailureLog logs) \<or>
         (\<exists>logs ctrl. exc \<noteq> None \<and> data_logger sf' = data_logger sf \<and>
            qp_failure_check cfg now out sf2 = (Inr ctrl, sf') \<and> make_twist ctrl = Inl (the exc) \<and>
            trace sf' = trace sf @ [sv, ai] @ map QpFailureLog logs) \<or>
         (\<exists>logs ctrl msg sf3. exc \<noteq> None \<and> data_logger sf' = data_logger sf \<and>
            qp_failure_check cfg now out sf2 = (Inr ctrl, sf3) \<and> make_twist ctrl = Inr msg \<and>
            trace sf' = trace sf @ [sv, ai] @ map QpFailureLog logs @ [CmdVelPublish msg]) \<or>
         (\<exists>logs ctrl msg sf3 r. exc = None \<and> data_logger sf' = data_logger sf @ [r] \<and>
            qp_failure_check cfg now out sf2 = (Inr ctrl, sf3) \<and> make_twist ctrl = Inr msg \<and>
            telemetry_record (emit (CmdVelPublish msg) sf3) ctrl = Inr r \<and>
            trace sf' = trace sf @ [sv, ai] @ map QpFailureLog logs @ [CmdVelPublish msg, LoggerAppend r])"
proof -
  define sf1 where "sf1 = emit (SafetyValuePublish v) (sf\<lparr>safety_value := Some v\<rparr>)"
  have pub: "publish_safety_value ext sf = Inr sf1"
    unfolding sf1_def by (rule publish_safety_value_Inr[OF interp])
  have f1: "trace sf1 = trace sf @ [sv]" "nominal_policy sf1 = nominal_policy sf"
    "state sf1 = state sf" "vf_table sf1 = vf_table sf" "data_logger sf1 = data_logger sf"
    by (simp_all add: sf1_def sv_def)
  show ?thesis
  proof (cases "np_reshape (nominal_policy sf) (control_dims cfg)")
    case (Inl e)
    with run pub f1 have "exc = Some e" "sf' = sf1"
      by (simp_all add: timer_callback_def)
    with Inl f1 show ?thesis by simp
  next
    case (Inr nominal)
    then have nominal: "nominal = [nominal_policy sf]"
      by (auto simp: np_reshape_def split: if_splits)
    have sf2: "sf2 = emit (AsifInvoke (state sf1) nominal) sf1"
      by (simp add: sf2_def sf1_def nominal)
    obtain res sf3 where chk: "qp_failure_check cfg now out sf2 = (res, sf3)"
      by (cases "qp_failure_check cfg now out sf2")
    from qp_failure_check_frame(1)[OF chk] obtain logs
      where tr3: "trace sf3 = trace sf @ [sv, ai] @ map QpFailureLog logs"
      by (auto simp: sf2_def sv_def ai_def)
    have dl3: "data_logger sf3 = data_logger sf"
      using qp_failure_check_frame(7)[OF chk] by (simp add: sf2_def)
    have step: "timer_callback ext cfg now sf =
      (case qp_failure_check cfg now out sf2 of
         (Inl e, sf3) \<Rightarrow> (Some e, sf3)
       | (Inr control_input, sf3) \<Rightarrow>
           (case make_twist control_input of
              Inl e \<Rightarrow> (Some e, sf3)
            | Inr msg \<Rightarrow>
                (let sf4 = emit (CmdVelPublish msg) sf3
                 in case telemetry_record sf4 control_input of
                      Inl e \<Rightarrow> (Some e, sf4)
                    | Inr r \<Rightarrow>
                        (None, emit (LoggerAppend r)
                                 (sf4\<lparr>data_logger := data_logger sf4 @ [r]\<rparr>)))))"
      using Inr pub f1 by (simp add: timer_callback_def Let_def sf2 out_def nominal)
    show ?thesis
    proof (cases res)
      case (Inl e)
      with run chk step have "exc = Some e" "sf' = sf3" by simp_all
      with Inl chk tr3 dl3 show ?thesis by auto
    next
      case ctrl: (Inr ctrl)
      show ?thesis
      proof (cases "make_twist ctrl")
        case (Inl e)
        with run chk ctrl step have "exc = Some e" "sf' = sf3" by simp_all
        with Inl ctrl chk tr3 dl3 show ?thesis by auto
      next
        case msg: (Inr msg)
        show ?thesis
        proof (cases "telemetry_record (emit (CmdVelPublish msg) sf3) ctrl")
          case (Inl e)
          with run chk ctrl msg step
          have "exc = Some e" "sf' = emit (CmdVelPublish msg) sf3" by simp_all
          with msg ctrl chk tr3 dl3 show ?thesis by auto
        next
          case r: (Inr r)
          with run chk ctrl msg step
          have "exc = None"
            "sf' = emit (LoggerAppend r)
                     ((emit (CmdVelPublish msg) sf3)
                        \<lparr>data_logger := data_logger (emit (CmdVelPublish msg) sf3) @ [r]\<rparr>)"
            by simp_all
          with r msg ctrl chk tr3 dl3 show ?thesis by auto
        qed
      qed
    qed
  qed
qed

lemma timer_callback_frame:
  assumes "timer_callback ext cfg now sf = (exc, sf')"
  shows "vf_table sf' = vf_table sf" and "nominal_policy sf' = nominal_policy sf"
    and "state sf' = state sf" and "cbf sf' = cbf sf"
  using assms unfolding timer_callback_def Let_def publish_safety_value_def bindE_def
  by (auto split: sum.splits prod.splits
           dest: qp_failure_check_frame(2) qp_failure_check_frame(3)
                 qp_failure_check_frame(4) qp_failure_check_frame(5))

subsection \<open>Cycles that run to their end\<close>

text \<open>A cycle whose corrector answer passes the test of line 118 and holds two floats.\<close>

lemma cycle_with_answer:
  assumes interp: "interpolate ext (vf_table sf) (state sf) = Inr v"
    and resh: "length (nominal_policy sf) = control_dims cfg"
    and guard: "row0_any_is_None (asif ext (vf_table sf) (state sf) 0 [nominal_policy sf]) = Inr False"
    and lin: "index0 (asif ext (vf_table sf) (state sf) 0 [nominal_policy sf]) 0 = Inr (PyFloat a)"
    and ang: "index0 (asif ext (vf_table sf) (state sf) 0 [nominal_policy sf]) 1 = Inr (PyFloat b)"
  defines "msg \<equiv> \<lparr> linear_x = a, linear_y = 0, linear_z = 0,
                     angular_x = 0, angular_y = 0, angular_z = b \<rparr>"
    and "r \<equiv> \<lparr> rec_x = state sf ! 0, rec_y = state sf ! 1, rec_theta = state sf ! 2,
                 rec_safety_value = v, rec_v = PyFloat a, rec_omega = PyFloat b,
                 rec_v_nom = nominal_policy sf ! 0, rec_omega_nom = nominal_policy sf ! 1 \<rparr>"
  shows "trace (snd (timer_callback ext cfg now sf)) =
           trace sf @ [SafetyValuePublish v, AsifInvoke (state sf) [nominal_policy sf],
                       CmdVelPublish msg]
           @ (if 3 \<le> length (state sf) \<and> 2 \<le> length (nominal_policy sf)
              then [LoggerAppend r] else [])"
    and "3 \<le> length (state sf) \<Longrightarrow> 2 \<le> length (nominal_policy sf) \<Longrightarrow>
           fst (timer_callback ext cfg now sf) = None \<and>
           data_logger (snd (timer_callback ext cfg now sf)) = data_logger sf @ [r]"
proof -
  define out where "out = asif ext (vf_table sf) (state sf) 0 [nominal_policy sf]"
  define sf1 where "sf1 = emit (SafetyValuePublish v) (sf\<lparr>safety_value := Some v\<rparr>)"
  define sf2 where "sf2 = emit (AsifInvoke (state sf) [nominal_policy sf]) sf1"
  define sf4 where "sf4 = emit (CmdVelPublish msg) sf2"
  have pub: "publish_safety_value ext sf = Inr sf1"
    unfolding sf1_def by (rule publish_safety_value_Inr[OF interp])
  have chk: "qp_failure_check cfg now out sf2 = (Inr out, sf2)"
    using guard by (simp add: out_def qp_failure_check_passes)
  have tw: "make_twist out = Inr msg"
    using lin ang by (simp add: out_def msg_def make_twist_floats)
  have step: "timer_callback ext cfg now sf =
      (case telemetry_record sf4 out of
         Inl e \<Rightarrow> (Some e, sf4)
       | Inr r \<Rightarrow> (None, emit (LoggerAppend r) (sf4\<lparr>data_logger := data_logger sf4 @ [r]\<rparr>)))"
    using pub resh chk tw unfolding sf4_def sf2_def sf1_def out_def
    by (simp add: timer_callback_def np_reshape_def Let_def)
  have tr4: "trace sf4 = trace sf @ [SafetyValuePublish v, AsifInvoke (state sf) [nominal_policy sf],
                                     CmdVelPublish msg]"
    by (simp add: sf4_def sf2_def sf1_def)
  have f4: "state sf4 = state sf" "nominal_policy sf4 = nominal_policy sf"
    "safety_value sf4 = Some v" "data_logger sf4 = data_logger sf"
    by (simp_all add: sf4_def sf2_def sf1_def)
  have tel: "telemetry_record sf4 out = Inr r"
    if "3 \<le> length (state sf)" "2 \<le> length (nominal_policy sf)"
    using telemetry_record_ok[of sf4 v out "PyFloat a" "PyFloat b"] that lin ang f4
    by (simp add: out_def r_def)
  have short: "telemetry_record sf4 out \<noteq> Inr r'"
    if "\<not> (3 \<le> length (state sf) \<and> 2 \<le> length (nominal_policy sf))" for r'
    using that f4 unfolding telemetry_record_def bindE_def py_index_def
    by (auto split: sum.splits if_splits)
  show "trace (snd (timer_callback ext cfg now sf)) =
           trace sf @ [SafetyValuePublish v, AsifInvoke (state sf) [nominal_policy sf],
                       CmdVelPublish msg]
           @ (if 3 \<le> length (state sf) \<and> 2 \<le> length (nominal_policy sf)
              then [LoggerAppend r] else [])"
  proof (cases "3 \<le> length (state sf) \<and> 2 \<le> length (nominal_policy sf)")
    case True
    with tel step tr4 show ?thesis by simp
  next
    case False
    from short[OF False] obtain e where "telemetry_record sf4 out = Inl e"
      by (cases "telemetry_record sf4 out") auto
    with step tr4 False show ?thesis by simp
  qed
  show "fst (timer_callback ext cfg now sf) = None \<and>
        data_logger (snd (timer_callback ext cfg now sf)) = data_logger sf @ [r]"
    if "3 \<le> length (state sf)" "2 \<le> length (nominal_policy sf)"
    using tel[OF that] step f4 by simp
qed


section \<open>Every published control message (claim C9)\<close>

text \<open>
  Claim C9. Every control message published by a cycle of the timer callback has
  \<^verbatim>\<open>linear.y\<close>, \<^verbatim>\<open>linear.z\<close>, \<^verbatim>\<open>angular.x\<close> and \<^verbatim>\<open>angular.y\<close> equal to zero,
  and \<^verbatim>\<open>linear.x\<close> and \<^verbatim>\<open>angular.z\<close> carry the two components of the control of the
  cycle: those of the substitute \<^verbatim>\<open>[[U_MIN[0], 0.0]]\<close> when the test of line 118
  succeeded, and entries \<^verbatim>\<open>[0, 0]\<close> and \<^verbatim>\<open>[0, 1]\<close> of the corrector's answer otherwise.
\<close>

theorem cmd_vel_side_components_zero:
  assumes pub: "CmdVelPublish m \<in> set (emitted sf (snd (timer_callback ext cfg now sf)))"
  shows "linear_y m = 0 \<and> linear_z m = 0 \<and> angular_x m = 0 \<and> angular_y m = 0 \<and>
         (let out = asif ext (vf_table sf) (state sf) 0 [nominal_policy sf]
          in if row0_any_is_None out = Inr True
             then linear_x m = U_MIN cfg ! 0 \<and> angular_z m = 0
             else index0 out 0 = Inr (PyFloat (linear_x m)) \<and>
                  index0 out 1 = Inr (PyFloat (angular_z m)))"
proof -
  define out where "out = asif ext (vf_table sf) (state sf) 0 [nominal_policy sf]"
  obtain exc sf' where run: "timer_callback ext cfg now sf = (exc, sf')"
    by (cases "timer_callback ext cfg now sf")
  from pub run have mem: "CmdVelPublish m \<in> set (emitted sf sf')" by simp
  have "\<exists>v. interpolate ext (vf_table sf) (state sf) = Inr v"
  proof (cases "interpolate ext (vf_table sf) (state sf)")
    case (Inl e)
    from timer_callback_interpolate_raises[OF Inl, of cfg now] run mem show ?thesis
      by (simp add: emitted_def)
  next
    case (Inr v)
    then show ?thesis by blast
  qed
  then obtain v where interp: "interpolate ext (vf_table sf) (state sf) = Inr v" ..
  define sf2 where
    "sf2 = emit (AsifInvoke (state sf) [nominal_policy sf])
             (emit (SafetyValuePublish v) (sf\<lparr>safety_value := Some v\<rparr>))"
  from timer_callback_shape[OF run interp] mem
  obtain ctrl sf3 where chk: "qp_failure_check cfg now out sf2 = (Inr ctrl, sf3)"
    and tw: "make_twist ctrl = Inr m"
    unfolding out_def sf2_def
    by (elim disjE exE conjE) (auto simp: emitted_def)
  note parts = make_twist_Inr[OF tw]
  from qp_failure_check_Inr[OF chk]
  have "if row0_any_is_None out = Inr True
        then linear_x m = U_MIN cfg ! 0 \<and> angular_z m = 0
        else index0 out 0 = Inr (PyFloat (linear_x m)) \<and>
             index0 out 1 = Inr (PyFloat (angular_z m))"
  proof (elim disjE conjE exE)
    assume "row0_any_is_None out = Inr False" "ctrl = out"
    with parts show ?thesis by simp
  next
    fix u0 val
    assume "row0_any_is_None out = Inr True" "py_index (U_MIN cfg) 0 = Inr u0"
      "ctrl = Array2 [[PyFloat u0, PyFloat 0]]"
    with parts show ?thesis by (auto simp: py_index_def split: if_splits)
  qed
  with parts show ?thesis unfolding Let_def out_def by simp
qed

theorem cmd_vel_side_components_zero_witness:
  "CmdVelPublish \<lparr> linear_x = 1 / 10, linear_y = 0, linear_z = 0,
                    angular_x = 0, angular_y = 0, angular_z = - (1 / 5) \<rparr>
     \<in> set (emitted demo_filter
              (snd (timer_callback (demo_extern (Array2 [[PyFloat (1 / 10), PyFloat (- (1 / 5))]]))
                      demo_config 0 demo_filter)))
   \<and> index0 (Array2 [[PyFloat (1 / 10), PyFloat (- (1 / 5))]]) 1 = Inr (PyFloat (- (1 / 5)))"
proof -
  let ?m = "\<lparr> linear_x = 1 / 10, linear_y = 0, linear_z = 0,
               angular_x = 0, angular_y = 0, angular_z = - (1 / 5) \<rparr>"
  let ?E = "demo_extern (Array2 [[PyFloat (1 / 10), PyFloat (- (1 / 5))]])"
  have h: "CmdVelPublish ?m
             \<in> set (emitted demo_filter (snd (timer_callback ?E demo_config 0 demo_filter)))"
    by (simp add: demo_defs callback_defs)
  from cmd_vel_side_components_zero[OF h] h show ?thesis
    by (simp add: py_index_def)
qed

section \<open>The order of the steps of a cycle (claim C6)\<close>



section \<open>Sequences of deliveries\<close>

lemma cbf_sub_callback_disabled:
  "\<not> USE_REFINECBF cfg \<Longrightarrow> cbf_sub_callback ext cfg b sf = (None, sf)"
  by (simp add: cbf_sub_callback_def)

lemma cbf_sub_callback_frame:
  assumes "cbf_sub_callback ext cfg b sf = (exc, sf')"
  shows "nominal_policy sf' = nominal_policy sf" and "state sf' = state sf"
  using assms unfolding cbf_sub_callback_def
  by (auto split: if_splits sum.splits)

lemma deliver_keeps_table:
  assumes "\<not> USE_REFINECBF cfg" and "deliver ext cfg d sf = (exc, sf')"
  shows "vf_table sf' = vf_table sf"
proof (cases d)
  case (TimerFire now)
  with assms(2) show ?thesis by (simp add: timer_callback_frame(1))
next
  case (CbfAvailability b)
  with assms show ?thesis by (simp add: cbf_sub_callback_disabled)
next
  case (NomPolicy msg)
  with assms(2) show ?thesis by (auto simp: nom_policy_sub_callback_def)
qed

lemma run_callbacks_keeps_table:
  assumes "\<not> USE_REFINECBF cfg"
  shows "vf_table (snd (run_callbacks ext cfg ds sf)) = vf_table sf"
proof (induction ds arbitrary: sf)
  case Nil
  show ?case by simp
next
  case (Cons d ds)
  obtain exc sf1 where step: "deliver ext cfg d sf = (exc, sf1)"
    by (cases "deliver ext cfg d sf")
  have keep: "vf_table sf1 = vf_table sf"
    using deliver_keeps_table[OF assms step] .
  show ?case
  proof (cases exc)
    case None
    with step Cons.IH[of sf1] keep show ?thesis by simp
  next
    case (Some e)
    with step keep show ?thesis by simp
  qed
qed

text \<open>
  No callback of the source assigns \<^verbatim>\<open>self.state\<close>: whatever is delivered, the state a
  cycle reads is the one the node was given.
\<close>

lemma deliver_keeps_state:
  assumes "deliver ext cfg d sf = (exc, sf')"
  shows "state sf' = state sf"
proof (cases d)
  case (TimerFire now)
  with assms show ?thesis by (simp add: timer_callback_frame(3))
next
  case (CbfAvailability b)
  with assms show ?thesis by (simp add: cbf_sub_callback_frame(2))
next
  case (NomPolicy msg)
  with assms show ?thesis by (auto simp: nom_policy_sub_callback_def)
qed

lemma run_callbacks_keeps_state: "state (snd (run_callbacks ext cfg ds sf)) = state sf"
proof (induction ds arbitrary: sf)
  case Nil
  show ?case by simp
next
  case (Cons d ds)
  obtain exc sf1 where step: "deliver ext cfg d sf = (exc, sf1)"
    by (cases "deliver ext cfg d sf")
  have keep: "state sf1 = state sf"
    using deliver_keeps_state[OF step] .
  show ?case
  proof (cases exc)
    case None
    with step Cons.IH[of sf1] keep show ?thesis by simp
  next
    case (Some e)
    with step keep show ?thesis by simp
  qed
qed

lemma deliver_nominal:
  assumes "deliver ext cfg d sf = (exc, sf')"
  shows "nominal_policy sf' = latest_nominal (nominal_policy sf) [d]"
proof (cases d)
  case (TimerFire now)
  with assms show ?thesis by (simp add: timer_callback_frame(2))
next
  case (CbfAvailability b)
  with assms show ?thesis by (simp add: cbf_sub_callback_frame(1))
next
  case (NomPolicy msg)
  with assms show ?thesis by (auto simp: nom_policy_sub_callback_def)
qed

lemma latest_nominal_step:
  "latest_nominal d (x # ds) = latest_nominal (latest_nominal d [x]) ds"
  by (cases x) simp_all

lemma length_latest_nominal: "length d = 2 \<Longrightarrow> length (latest_nominal d ds) = 2"
  by (induction d ds rule: latest_nominal.induct) simp_all

lemma run_callbacks_nominal:
  assumes "run_callbacks ext cfg ds sf = (None, sf')"
  shows "nominal_policy sf' = latest_nominal (nominal_policy sf) ds"
  using assms
proof (induction ds arbitrary: sf)
  case Nil
  then show ?case by simp
next
  case (Cons d ds)
  obtain exc sf1 where step: "deliver ext cfg d sf = (exc, sf1)"
    by (cases "deliver ext cfg d sf")
  with Cons.prems have "exc = None" and rest: "run_callbacks ext cfg ds sf1 = (None, sf')"
    by (auto split: option.splits)
  from Cons.IH[OF rest] deliver_nominal[OF step]
  show ?case by (simp add: latest_nominal_step[of _ d ds])
qed

lemma take3_cycle_with_answer:
  assumes interp: "interpolate ext (vf_table sf) (state sf) = Inr v"
    and resh: "length (nominal_policy sf) = control_dims cfg"
    and guard: "row0_any_is_None (asif ext (vf_table sf) (state sf) 0 [nominal_policy sf]) = Inr False"
    and lin: "index0 (asif ext (vf_table sf) (state sf) 0 [nominal_policy sf]) 0 = Inr (PyFloat a)"
    and ang: "index0 (asif ext (vf_table sf) (state sf) 0 [nominal_policy sf]) 1 = Inr (PyFloat b)"
  shows "take 3 (emitted sf (snd (timer_callback ext cfg now sf))) =
           [SafetyValuePublish v, AsifInvoke (state sf) [nominal_policy sf],
            CmdVelPublish \<lparr> linear_x = a, linear_y = 0, linear_z = 0,
                            angular_x = 0, angular_y = 0, angular_z = b \<rparr>]"
  using cycle_with_answer(1)[OF assms, of now] by (simp add: emitted_def)

section \<open>The nominal policy a cycle filters (claim C10)\<close>

text \<open>
  Claim C10. Start from a node holding the nominal policy that line 54 assigns,
  \<^verbatim>\<open>[U_MIN[0], 0]\<close>, and make any deliveries whose callbacks all return. The nominal
  policy held by the node is then the pair of \<^verbatim>\<open>linear.x\<close> and \<^verbatim>\<open>angular.z\<close> of the
  most recent \<^verbatim>\<open>nom_policy\<close> message (its other components play no part), or the
  starting value when none has arrived. The next cycle applies the corrector to exactly
  that policy: whatever control the corrector answers for it is the one published. Under
  the control bounds of \<^verbatim>\<open>config.py\<close> the starting value is \<^verbatim>\<open>[0, 0]\<close>.
\<close>

theorem cycles_filter_latest_nominal:
  assumes start: "initial_nominal_policy cfg = Inr (nominal_policy sf0)"
    and run: "run_callbacks ext cfg ds sf0 = (None, sf)"
    and dims: "control_dims cfg = 2"
    and interp: "interpolate ext (vf_table sf) (state sf) = Inr v"
    and guard: "row0_any_is_None
                  (asif ext (vf_table sf) (state sf) 0 [latest_nominal [U_MIN cfg ! 0, 0] ds]) =
                Inr False"
    and lin: "index0 (asif ext (vf_table sf) (state sf) 0 [latest_nominal [U_MIN cfg ! 0, 0] ds]) 0 =
                Inr (PyFloat a)"
    and ang: "index0 (asif ext (vf_table sf) (state sf) 0 [latest_nominal [U_MIN cfg ! 0, 0] ds]) 1 =
                Inr (PyFloat b)"
  shows "nominal_policy sf = latest_nominal [U_MIN cfg ! 0, 0] ds
       \<and> take 3 (emitted sf (snd (timer_callback ext cfg now sf))) =
           [SafetyValuePublish v,
            AsifInvoke (state sf) [latest_nominal [U_MIN cfg ! 0, 0] ds],
            CmdVelPublish \<lparr> linear_x = a, linear_y = 0, linear_z = 0,
                            angular_x = 0, angular_y = 0, angular_z = b \<rparr>]
       \<and> [U_MIN (config_py tbl n fname) ! 0, 0] = [0, 0]"
proof -
  from start have first: "nominal_policy sf0 = [U_MIN cfg ! 0, 0]"
    by (auto simp: initial_nominal_policy_def bindE_def py_index_def split: if_splits)
  have nom: "nominal_policy sf = latest_nominal [U_MIN cfg ! 0, 0] ds"
    using run_callbacks_nominal[OF run] first by simp
  from nom length_latest_nominal[of "[U_MIN cfg ! 0, 0]" ds] dims
  have resh: "length (nominal_policy sf) = control_dims cfg" by simp
  from take3_cycle_with_answer[OF interp resh, of a b now] guard lin ang nom
  show ?thesis by (simp add: config_py_def)
qed

theorem cycles_filter_latest_nominal_witness:
  "initial_nominal_policy demo_config = Inr (nominal_policy demo_filter)
   \<and> fst (run_callbacks (demo_extern demo_control) demo_config
            [TimerFire 0, NomPolicy demo_policy_msg, CbfAvailability False] demo_filter) = None
   \<and> control_dims demo_config = 2
   \<and> nominal_policy (snd (run_callbacks (demo_extern demo_control) demo_config
            [TimerFire 0, NomPolicy demo_policy_msg, CbfAvailability False] demo_filter)) =
       [1 / 5, 1 / 10]
   \<and> take 3 (emitted
        (snd (run_callbacks (demo_extern demo_control) demo_config
               [TimerFire 0, NomPolicy demo_policy_msg, CbfAvailability False] demo_filter))
        (snd (timer_callback (demo_extern demo_control) demo_config 1
               (snd (run_callbacks (demo_extern demo_control) demo_config
                      [TimerFire 0, NomPolicy demo_policy_msg, CbfAvailability False]
                      demo_filter))))) =
       [SafetyValuePublish 1, AsifInvoke [1 / 2, 1, 0] [[1 / 5, 1 / 10]],
        CmdVelPublish \<lparr> linear_x = 1 / 10, linear_y = 0, linear_z = 0,
                        angular_x = 0, angular_y = 0, angular_z = - (1 / 5) \<rparr>]"
proof -
  let ?E = "demo_extern demo_control"
  let ?ds = "[TimerFire 0, NomPolicy demo_policy_msg, CbfAvailability False]"
  let ?run = "run_callbacks ?E demo_config ?ds demo_filter"
  let ?sf = "snd ?run"
  have a: "initial_nominal_policy demo_config = Inr (nominal_policy demo_filter)"
    by (simp add: demo_defs initial_nominal_policy_def bindE_def py_index_def)
  have ok: "fst ?run = None"
    by (simp add: demo_defs callback_defs)
  then have b: "?run = (None, ?sf)" by (metis prod.collapse)
  have c: "control_dims demo_config = 2" by (simp add: demo_defs)
  have l: "latest_nominal [U_MIN demo_config ! 0, 0] ?ds = [1 / 5, 1 / 10]"
    by (simp add: demo_defs)
  have st: "state ?sf = [1 / 2, 1, 0]"
    by (simp only: run_callbacks_keeps_state) (simp add: demo_filter_def)
  have tb: "vf_table ?sf = demo_table"
    by (simp add: demo_defs callback_defs)
  have i: "interpolate ?E (vf_table ?sf) (state ?sf) = Inr 1"
    unfolding tb st by (simp add: demo_defs)
  have g: "row0_any_is_None (asif ?E (vf_table ?sf) (state ?sf) 0
             [latest_nominal [U_MIN demo_config ! 0, 0] ?ds]) = Inr False"
    "index0 (asif ?E (vf_table ?sf) (state ?sf) 0
             [latest_nominal [U_MIN demo_config ! 0, 0] ?ds]) 0 = Inr (PyFloat (1 / 10))"
    "index0 (asif ?E (vf_table ?sf) (state ?sf) 0
             [latest_nominal [U_MIN demo_config ! 0, 0] ?ds]) 1 = Inr (PyFloat (- (1 / 5)))"
    by (simp_all add: demo_extern_def demo_control_def py_or_def py_index_def)
  from cycles_filter_latest_nominal[OF a b c i g, of 1] a ok c
  show ?thesis unfolding l st by simp
qed

section \<open>The refinement switch (claim C7)\<close>

text \<open>
  Claim C7. With \<^verbatim>\<open>USE_REFINECBF\<close> false: a node holding the table that lines 45 to 47
  load from \<^verbatim>\<open>PRECOMPUTED_CBF_FILENAME\<close> still holds it after any deliveries; no
  delivery changes the table of any node; the cycle that follows interpolates the safety
  value on that table and applies the corrector to it, publishing the control the
  corrector answers for it; and a \<^verbatim>\<open>cbf_availability\<close> message of either value
  changes nothing. With \<^verbatim>\<open>USE_REFINECBF\<close> true, a true message installs the table
  loaded from \<^verbatim>\<open>./log/cbf.npy\<close>. A false message leaves the node unchanged.
\<close>

theorem refinement_switch:
  "(\<not> USE_REFINECBF cfg \<and> initial_vf_table ext cfg = Inr (c, vf_table sf) \<longrightarrow>
      load ext (PRECOMPUTED_CBF_FILENAME cfg) =
        Some (vf_table (snd (run_callbacks ext cfg ds sf))))
   \<and> (\<not> USE_REFINECBF cfg \<longrightarrow>
        vf_table (snd (run_callbacks ext cfg ds sf)) = vf_table sf)
   \<and> (\<not> USE_REFINECBF cfg
        \<and> interpolate ext (vf_table sf) (state (snd (run_callbacks ext cfg ds sf))) = Inr v
        \<and> length (nominal_policy (snd (run_callbacks ext cfg ds sf))) = control_dims cfg
        \<and> row0_any_is_None
             (asif ext (vf_table sf) (state (snd (run_callbacks ext cfg ds sf))) 0
                [nominal_policy (snd (run_callbacks ext cfg ds sf))]) = Inr False
        \<and> index0 (asif ext (vf_table sf) (state (snd (run_callbacks ext cfg ds sf))) 0
                    [nominal_policy (snd (run_callbacks ext cfg ds sf))]) 0 = Inr (PyFloat p)
        \<and> index0 (asif ext (vf_table sf) (state (snd (run_callbacks ext cfg ds sf))) 0
                    [nominal_policy (snd (run_callbacks ext cfg ds sf))]) 1 = Inr (PyFloat q)
      \<longrightarrow> take 3 (emitted (snd (run_callbacks ext cfg ds sf))
                    (snd (timer_callback ext cfg now (snd (run_callbacks ext cfg ds sf))))) =
            [SafetyValuePublish v,
             AsifInvoke (state (snd (run_callbacks ext cfg ds sf)))
               [nominal_policy (snd (run_callbacks ext cfg ds sf))],
             CmdVelPublish \<lparr> linear_x = p, linear_y = 0, linear_z = 0,
                             angular_x = 0, angular_y = 0, angular_z = q \<rparr>])
   \<and> (\<not> USE_REFINECBF cfg \<longrightarrow> cbf_sub_callback ext cfg b sf = (None, sf))
   \<and> (USE_REFINECBF cfg \<and> load ext ''./log/cbf.npy'' = Some a \<longrightarrow>
        cbf_sub_callback ext cfg True sf = (None, sf\<lparr>cbf := Some a, vf_table := a\<rparr>))
   \<and> cbf_sub_callback ext cfg False sf = (None, sf)"
proof (intro conjI impI)
  assume h: "\<not> USE_REFINECBF cfg \<and> initial_vf_table ext cfg = Inr (c, vf_table sf)"
  then have "load ext (PRECOMPUTED_CBF_FILENAME cfg) = Some (vf_table sf)"
    by (auto simp: initial_vf_table_def bindE_def jnp_load_def split: option.splits)
  with h show "load ext (PRECOMPUTED_CBF_FILENAME cfg) =
                 Some (vf_table (snd (run_callbacks ext cfg ds sf)))"
    by (simp add: run_callbacks_keeps_table)
next
  assume "\<not> USE_REFINECBF cfg"
  then show "vf_table (snd (run_callbacks ext cfg ds sf)) = vf_table sf"
    by (rule run_callbacks_keeps_table)
next
  let ?sf = "snd (run_callbacks ext cfg ds sf)"
  assume h: "\<not> USE_REFINECBF cfg
        \<and> interpolate ext (vf_table sf) (state ?sf) = Inr v
        \<and> length (nominal_policy ?sf) = control_dims cfg
        \<and> row0_any_is_None (asif ext (vf_table sf) (state ?sf) 0 [nominal_policy ?sf]) = Inr False
        \<and> index0 (asif ext (vf_table sf) (state ?sf) 0 [nominal_policy ?sf]) 0 = Inr (PyFloat p)
        \<and> index0 (asif ext (vf_table sf) (state ?sf) 0 [nominal_policy ?sf]) 1 = Inr (PyFloat q)"
  then have same: "vf_table ?sf = vf_table sf"
    by (simp add: run_callbacks_keeps_table)
  from h show "take 3 (emitted ?sf (snd (timer_callback ext cfg now ?sf))) =
            [SafetyValuePublish v, AsifInvoke (state ?sf) [nominal_policy ?sf],
             CmdVelPublish \<lparr> linear_x = p, linear_y = 0, linear_z = 0,
                             angular_x = 0, angular_y = 0, angular_z = q \<rparr>]"
    by (intro take3_cycle_with_answer) (simp_all only: same)
next
  assume "\<not> USE_REFINECBF cfg"
  then show "cbf_sub_callback ext cfg b sf = (None, sf)"
    by (rule cbf_sub_callback_disabled)
next
  assume "USE_REFINECBF cfg \<and> load ext ''./log/cbf.npy'' = Some a"
  then show "cbf_sub_callback ext cfg True sf = (None, sf\<lparr>cbf := Some a, vf_table := a\<rparr>)"
    by (simp add: cbf_sub_callback_def jnp_load_def)
next
  show "cbf_sub_callback ext cfg False sf = (None, sf)"
    by (simp add: cbf_sub_callback_def)
qed

theorem refinement_switch_witness:
  "\<not> USE_REFINECBF precomputed_config
   \<and> initial_vf_table (precomputed_extern demo_control) precomputed_config =
       Inr (Some demo_table, vf_table demo_filter)
   \<and> load (precomputed_extern demo_control) (PRECOMPUTED_CBF_FILENAME precomputed_config) =
       Some demo_table
   \<and> vf_table (snd (run_callbacks (precomputed_extern demo_control) precomputed_config
                      [CbfAvailability True, TimerFire 0] demo_filter)) = demo_table
   \<and> take 3 (emitted
        (snd (run_callbacks (precomputed_extern demo_control) precomputed_config
               [CbfAvailability True, TimerFire 0] demo_filter))
        (snd (timer_callback (precomputed_extern demo_control) precomputed_config 1
               (snd (run_callbacks (precomputed_extern demo_control) precomputed_config
                      [CbfAvailability True, TimerFire 0] demo_filter))))) =
       [SafetyValuePublish 1, AsifInvoke [1 / 2, 1, 0] [[0, 0]],
        CmdVelPublish \<lparr> linear_x = 1 / 10, linear_y = 0, linear_z = 0,
                        angular_x = 0, angular_y = 0, angular_z = - (1 / 5) \<rparr>]
   \<and> USE_REFINECBF demo_config
   \<and> load (demo_extern demo_control) ''./log/cbf.npy'' = Some misshapen_table
   \<and> vf_table (snd (cbf_sub_callback (demo_extern demo_control) demo_config True demo_filter)) =
       misshapen_table"
proof -
  let ?P = "precomputed_extern demo_control"
  let ?E = "demo_extern demo_control"
  let ?ds = "[CbfAvailability True, TimerFire 0]"
  let ?sf = "snd (run_callbacks ?P precomputed_config ?ds demo_filter)"
  have a: "\<not> USE_REFINECBF precomputed_config" by (simp add: precomputed_config_def)
  have b: "initial_vf_table ?P precomputed_config = Inr (Some demo_table, vf_table demo_filter)"
    by (simp add: demo_defs initial_vf_table_def bindE_def jnp_load_def)
  have pf: "load ?P (PRECOMPUTED_CBF_FILENAME precomputed_config) = Some demo_table"
    by (simp add: demo_defs)
  have c: "USE_REFINECBF demo_config" by (simp add: demo_defs)
  have d: "load ?E ''./log/cbf.npy'' = Some misshapen_table" by (simp add: demo_extern_def)
  have vt: "vf_table demo_filter = demo_table" by (simp add: demo_filter_def)
  have st: "state ?sf = [1 / 2, 1, 0]"
    by (simp only: run_callbacks_keeps_state) (simp add: demo_filter_def)
  have np: "nominal_policy ?sf = [0, 0]"
    by (simp add: demo_defs callback_defs)
  have i: "interpolate ?P demo_table [1 / 2, 1, 0] = Inr 1"
    by (simp add: demo_defs)
  have l: "length [0 :: real, 0] = control_dims precomputed_config"
    by (simp add: demo_defs)
  have g: "row0_any_is_None (asif ?P demo_table [1 / 2, 1, 0] 0 [[0, 0]]) = Inr False"
    "index0 (asif ?P demo_table [1 / 2, 1, 0] 0 [[0, 0]]) 0 = Inr (PyFloat (1 / 10))"
    "index0 (asif ?P demo_table [1 / 2, 1, 0] 0 [[0, 0]]) 1 = Inr (PyFloat (- (1 / 5)))"
    by (simp_all add: demo_defs py_or_def py_index_def)
  note sw = refinement_switch[where cfg = precomputed_config and ext = ?P and sf = demo_filter
               and ds = ?ds and c = "Some demo_table" and v = 1
               and p = "1 / 10" and q = "- (1 / 5)" and now = 1]
  from sw a b have "load ?P (PRECOMPUTED_CBF_FILENAME precomputed_config) = Some (vf_table ?sf)"
    by blast
  with pf have "Some (vf_table ?sf) = Some demo_table"
    by (simp only:)
  then have kept: "vf_table ?sf = demo_table"
    by (simp only: option.inject)
  note ld = pf
  from sw a i l g
  have cyc: "take 3 (emitted ?sf (snd (timer_callback ?P precomputed_config 1 ?sf))) =
       [SafetyValuePublish 1, AsifInvoke [1 / 2, 1, 0] [[0, 0]],
        CmdVelPublish \<lparr> linear_x = 1 / 10, linear_y = 0, linear_z = 0,
                        angular_x = 0, angular_y = 0, angular_z = - (1 / 5) \<rparr>]"
    unfolding vt st np by blast
  from refinement_switch[where cfg = demo_config and ext = ?E and a = misshapen_table
                            and sf = demo_filter] c d
  have "cbf_sub_callback ?E demo_config True demo_filter =
          (None, demo_filter\<lparr>cbf := Some misshapen_table, vf_table := misshapen_table\<rparr>)"
    by blast
  then have inst: "vf_table (snd (cbf_sub_callback ?E demo_config True demo_filter)) = misshapen_table"
    by simp
  from a b ld kept cyc c d inst show ?thesis by (simp only: simp_thms)
qed

section \<open>Installing a refined table (claim C1)\<close>

text \<open>
  Claim C1, as the code has it. \<^verbatim>\<open>cbf_sub_callback\<close> compares no shapes: with
  refinement enabled, a table loaded on a true message is installed even when its shape
  differs from the grid resolution; the callback returns without raising and the previous
  table is replaced.
\<close>

theorem cbf_sub_callback_installs_unvalidated:
  assumes "USE_REFINECBF cfg" and "load ext ''./log/cbf.npy'' = Some cand"
    and "shape cand \<noteq> GRID_RESOLUTION cfg"
  shows "cbf_sub_callback ext cfg True sf = (None, sf\<lparr>cbf := Some cand, vf_table := cand\<rparr>)"
  using assms(1,2) by (simp add: cbf_sub_callback_def jnp_load_def)

theorem cbf_sub_callback_installs_unvalidated_witness:
  "USE_REFINECBF demo_config
   \<and> load (demo_extern demo_control) ''./log/cbf.npy'' = Some misshapen_table
   \<and> shape misshapen_table \<noteq> GRID_RESOLUTION demo_config
   \<and> vf_table (snd (cbf_sub_callback (demo_extern demo_control) demo_config True demo_filter)) =
       misshapen_table"
proof -
  have a: "USE_REFINECBF demo_config" by (simp add: demo_defs)
  have b: "load (demo_extern demo_control) ''./log/cbf.npy'' = Some misshapen_table"
    by (simp add: demo_extern_def)
  have c: "shape misshapen_table \<noteq> GRID_RESOLUTION demo_config" by (simp add: demo_defs)
  from cbf_sub_callback_installs_unvalidated[OF a b c, of demo_filter] a b c
  show ?thesis by simp
qed

text \<open>
  The claim as stated fails: on a grid of \<open>2 \<times> 2 \<times> 2\<close> nodes, with a table of that shape
  installed, a true message with a one-dimensional table of three cells on file returns
  normally and leaves the three-cell table installed.
\<close>

theorem wrong_shape_installed_counterexample:
  "shape misshapen_table \<noteq> GRID_RESOLUTION demo_config
   \<and> shape (vf_table demo_filter) = GRID_RESOLUTION demo_config
   \<and> cbf_sub_callback (demo_extern demo_control) demo_config True demo_filter =
       (None, demo_filter\<lparr>cbf := Some misshapen_table, vf_table := misshapen_table\<rparr>)"
  by (simp add: demo_defs cbf_sub_callback_def jnp_load_def)

section \<open>The handlers of \<^verbatim>\<open>main\<close> (claims C3 and C4)\<close>


lemma main_handlers_raises: "fst (main_handlers ext cfg outcome sf) = Some AttributeError"
  by (simp add: main_handlers_def split: prod.splits)







section \<open>A corrector without a solution (claims C2 and C5)\<close>





end
